theory Spec2Isabelle
  imports Complex_Main "HOL-Library.Multiset"
begin

section \<open>Scalars, identifiers and containers\<close>

text \<open>
  The runtime computes with 32-bit floats. The embedding takes every finite float as the
  real number it denotes: comparisons, sums and products are those of the reals, so
  rounding error, infinities and NaN are outside the model. Interned strings
  (\<open>HString\<close>) are compared by content. \<open>Int16\<close> values are integers; the
  conversion \<open>to_Int16\<close> writes out the wrap-around of a narrowing cast.
\<close>

type_synonym Float = real
type_synonym HString = string

definition to_Int16 :: "int \<Rightarrow> int" where
  "to_Int16 x = (x + 32768) mod 65536 - 32768"

datatype fault = IndexOutOfRange | DivisionByZero | NullDereference | StackOverflow

text \<open>
  \<open>Vector::operator[]\<close> on an index outside the vector is undefined behaviour in a
  release build; the model makes it the fault \<open>IndexOutOfRange\<close>. Likewise a division
  by zero, where the model tracks it, and the dereference of a null pointer. A recursion
  that does not end is \<open>StackOverflow\<close>.
\<close>

definition vec_get :: "'a list \<Rightarrow> int \<Rightarrow> fault + 'a" where
  "vec_get xs i = (if 0 \<le> i \<and> i < int (length xs) then Inr (xs ! nat i) else Inl IndexOutOfRange)"

definition vec_set :: "'a list \<Rightarrow> int \<Rightarrow> 'a \<Rightarrow> fault + 'a list" where
  "vec_set xs i v = (if 0 \<le> i \<and> i < int (length xs) then Inr (xs[nat i := v]) else Inl IndexOutOfRange)"




record Vector2D =
  v2_X :: Float
  v2_Y :: Float

record Vector3D =
  v3_X :: Float
  v3_Y :: Float
  v3_Z :: Float

record Vector4D =
  v4_X :: Float
  v4_Y :: Float
  v4_Z :: Float
  v4_W :: Float




record RGBA =
  m_R :: nat
  m_G :: nat
  m_B :: nat
  m_A :: nat

section \<open>The definition (Animation2DDataDefinition.h)\<close>

datatype TransformMode =
  kNormal | kOnlyTranslation | kNoRotationOrReflection | kNoScale | kNoScaleOrReflection

record BoneDefinition =
  bone_Id :: HString
  bone_ParentId :: HString
  bone_fLength :: Float
  bone_fPositionX :: Float
  bone_fPositionY :: Float
  bone_fRotationInDegrees :: Float
  bone_fScaleX :: Float
  bone_fScaleY :: Float
  bone_fShearX :: Float
  bone_fShearY :: Float
  bone_eTransformMode :: TransformMode
  bone_iParent :: int

record IkDefinition =
  ik_vBoneIds :: "HString list"
  ik_viBones :: "int list"
  ik_Id :: HString
  ik_TargetId :: HString
  ik_fMix :: Float
  ik_fSoftness :: Float
  ik_iOrder :: int
  ik_iTarget :: int
  ik_bBendPositive :: bool
  ik_bCompress :: bool
  ik_bStretch :: bool
  ik_bUniform :: bool

record PathDefinition =
  path_vBoneIds :: "HString list"
  path_viBones :: "int list"
  path_Id :: HString
  path_fPosition :: Float
  path_fPositionMix :: Float
  path_fRotationMix :: Float
  path_fSpacing :: Float
  path_TargetId :: HString
  path_iOrder :: int
  path_iTarget :: int

record SlotDataDefinition =
  slot_Id :: HString
  slot_AttachmentId :: HString
  slot_Color :: RGBA
  slot_BoneId :: HString
  slot_iBone :: int
  slot_SecondaryColor :: RGBA

record TransformConstraintDefinition =
  tc_vBoneIds :: "HString list"
  tc_viBones :: "int list"
  tc_Id :: HString
  tc_fPositionMix :: Float
  tc_fRotationMix :: Float
  tc_fScaleMix :: Float
  tc_fShearMix :: Float
  tc_TargetId :: HString
  tc_iOrder :: int
  tc_iTarget :: int
  tc_bLocal :: bool

datatype PoseTask = BoneTask int | IkTask int | PathTask int | TransformTask int

text \<open>
  A \<open>Lookup\<close> is a hash table from identifier to \<open>Int16\<close> index. The definition keeps
  its vectors, its lookup tables, the pool of Bezier tables and the pose task list.
  \<open>m_tPathBones\<close> stands for the skins as \<open>FinalizePoseTasks\<close> reads them: for a slot
  identifier of the default skin, one entry per attachment of that slot, \<open>None\<close> for an
  attachment that is not a path and otherwise the path attachment's bone-count array;
  \<open>m_bDefaultSkin\<close> says whether the default skin exists.
\<close>

type_synonym Lookup = "HString \<rightharpoonup> int"

record DataDefinition =
  m_vBones :: "BoneDefinition list"
  m_tBones :: Lookup
  m_vCurves :: "Float list list"
  m_vIk :: "IkDefinition list"
  m_tIk :: Lookup
  m_vPaths :: "PathDefinition list"
  m_tPaths :: Lookup
  m_vPoseTasks :: "PoseTask list"
  m_bDefaultSkin :: bool
  m_tPathBones :: "HString \<rightharpoonup> (int list option) list"
  m_vSlots :: "SlotDataDefinition list"
  m_tSlots :: Lookup
  m_vTransforms :: "TransformConstraintDefinition list"
  m_tTransforms :: Lookup

definition GetIndex :: "Lookup \<Rightarrow> HString \<Rightarrow> int" where
  "GetIndex t ident = (case t ident of None \<Rightarrow> -1 | Some i \<Rightarrow> i)"

definition GetBoneIndex :: "DataDefinition \<Rightarrow> HString \<Rightarrow> int" where
  "GetBoneIndex d ident = GetIndex (m_tBones d) ident"

definition GetIkIndex :: "DataDefinition \<Rightarrow> HString \<Rightarrow> int" where
  "GetIkIndex d ident = GetIndex (m_tIk d) ident"

definition GetPathIndex :: "DataDefinition \<Rightarrow> HString \<Rightarrow> int" where
  "GetPathIndex d ident = GetIndex (m_tPaths d) ident"

definition GetSlotIndex :: "DataDefinition \<Rightarrow> HString \<Rightarrow> int" where
  "GetSlotIndex d ident = GetIndex (m_tSlots d) ident"

definition GetTransformIndex :: "DataDefinition \<Rightarrow> HString \<Rightarrow> int" where
  "GetTransformIndex d ident = GetIndex (m_tTransforms d) ident"

section \<open>Key frames and clips (Animation2DClipDefinition.h)\<close>

datatype CurveType = kLinear | kStepped | kBezier

record BaseKeyFrame =
  m_fTime :: Float
  m_uCurveType :: CurveType
  m_uCurveDataOffset :: nat

record KeyFrame2D = BaseKeyFrame +
  k2_fX :: Float
  k2_fY :: Float

record KeyFrameDeform = BaseKeyFrame +
  kd_vVertices :: "Float list"

record KeyFramePathMix = BaseKeyFrame +
  kpm_fPositionMix :: Float
  kpm_fRotationMix :: Float

record KeyFramePathPosition = BaseKeyFrame +
  kpp_fPosition :: Float

record KeyFramePathSpacing = BaseKeyFrame +
  kps_fSpacing :: Float

record KeyFrameRotation = BaseKeyFrame +
  kr_fAngleInDegrees :: Float

record KeyFrameScale = BaseKeyFrame +
  ks_fX :: Float
  ks_fY :: Float

record KeyFrameColor = BaseKeyFrame +
  kc_Color :: RGBA

record KeyFrameIk = BaseKeyFrame +
  kik_fMix :: Float
  kik_fSoftness :: Float
  kik_bBendPositive :: bool
  kik_bCompress :: bool
  kik_bStretch :: bool

record KeyFrameTransform = BaseKeyFrame +
  kt_fPositionMix :: Float
  kt_fRotationMix :: Float
  kt_fScaleMix :: Float
  kt_fShearMix :: Float

record KeyFrameTwoColor = BaseKeyFrame +
  ktc_Color :: RGBA
  ktc_SecondaryColor :: RGBA

record KeyFrameAttachment =
  ka_fTime :: Float
  ka_Id :: HString

record DrawOrderOffset =
  m_Slot :: HString
  m_iOffset :: int

record KeyFrameDrawOrder =
  kdo_fTime :: Float
  m_vOffsets :: "DrawOrderOffset list"

record KeyFrameEvent =
  ke_fTime :: Float
  ke_f :: Float
  ke_i :: int
  ke_s :: string
  ke_Id :: HString

record BoneKeyFrames =
  m_vRotation :: "KeyFrameRotation list"
  m_vScale :: "KeyFrameScale list"
  m_vShear :: "KeyFrame2D list"
  m_vTranslation :: "KeyFrame2D list"

record PathKeyFrames =
  m_vMix :: "KeyFramePathMix list"
  m_vPosition :: "KeyFramePathPosition list"
  m_vSpacing :: "KeyFramePathSpacing list"

record SlotKeyFrames =
  m_vAttachment :: "KeyFrameAttachment list"
  m_vColor :: "KeyFrameColor list"
  m_vTwoColor :: "KeyFrameTwoColor list"

record DeformKey =
  m_SkinId :: HString
  m_SlotId :: HString
  m_AttachmentId :: HString

text \<open>
  A clip's hash tables are association lists in the order the table's iterator visits
  them. The three nested deform tables are flattened to one list keyed by \<open>DeformKey\<close>,
  in the order of the three nested loops of \<open>InternalConstructEvaluators\<close>.
\<close>

record Clip =
  clip_tBones :: "(HString \<times> BoneKeyFrames) list"
  clip_tDeforms :: "(DeformKey \<times> KeyFrameDeform list) list"
  clip_vDrawOrder :: "KeyFrameDrawOrder list"
  clip_vEvents :: "KeyFrameEvent list"
  clip_tIk :: "(HString \<times> KeyFrameIk list) list"
  clip_tPaths :: "(HString \<times> PathKeyFrames) list"
  clip_tSlots :: "(HString \<times> SlotKeyFrames) list"
  clip_tTransforms :: "(HString \<times> KeyFrameTransform list) list"

section \<open>The frame cache (Animation2DCache.h)\<close>

record IkEntry =
  e_fMix :: Float
  e_fSoftness :: Float
  e_fBendPositive :: Float
  e_fCompress :: Float
  e_fStretch :: Float


record SlotAttachmentEntry =
  sa_fAlpha :: Float
  sa_AttachmentId :: HString
  sa_iSlot :: int

text \<open>\<open>SlotAttachmentEntry::operator<\<close>: by weight, then by slot index.\<close>

definition entry_less :: "SlotAttachmentEntry \<Rightarrow> SlotAttachmentEntry \<Rightarrow> bool" where
  "entry_less a b = (if sa_fAlpha a = sa_fAlpha b then sa_iSlot a < sa_iSlot b
                     else sa_fAlpha a < sa_fAlpha b)"

record TwoColorEntry =
  m_vLight :: Vector4D
  m_vDark :: Vector3D


record Cache =
  m_vAttachments :: "SlotAttachmentEntry list"
  m_tColor :: "int \<rightharpoonup> Vector4D"
  m_tTwoColor :: "int \<rightharpoonup> TwoColorEntry"
  m_vDrawOrder :: "int list"
  m_tIk :: "int \<rightharpoonup> IkEntry"
  m_tPathMix :: "int \<rightharpoonup> Vector2D"
  m_tPathPosition :: "int \<rightharpoonup> Float"
  m_tPathSpacing :: "int \<rightharpoonup> Float"
  m_tPosition :: "int \<rightharpoonup> Vector2D"
  m_tRotation :: "int \<rightharpoonup> Float"
  m_tScale :: "int \<rightharpoonup> Vector3D"
  m_tShear :: "int \<rightharpoonup> Vector2D"
  m_tTransform :: "int \<rightharpoonup> Vector4D"
  m_SlotScratch :: "int set"
  m_vDrawOrderScratch :: "int list"
















section \<open>The instance (Animation2DDataInstance.h)\<close>

record BoneInstance =
  bi_fPositionX :: Float
  bi_fPositionY :: Float
  bi_fRotationInDegrees :: Float
  bi_fScaleX :: Float
  bi_fScaleY :: Float
  bi_fShearX :: Float
  bi_fShearY :: Float

record IkInstance =
  iki_fMix :: Float
  iki_fSoftness :: Float
  iki_bBendPositive :: bool
  iki_bCompress :: bool
  iki_bStretch :: bool
  iki_bUniform :: bool

record PathInstance =
  pi_fPosition :: Float
  pi_fPositionMix :: Float
  pi_fRotationMix :: Float
  pi_fSpacing :: Float

record SlotInstance =
  si_AttachmentId :: HString
  si_Color :: RGBA

record TransformConstraintInstance =
  tci_fPositionMix :: Float
  tci_fRotationMix :: Float
  tci_fScaleMix :: Float
  tci_fShearMix :: Float

record Matrix2x3 =
  M00 :: Float
  M01 :: Float
  M10 :: Float
  M11 :: Float
  TX :: Float
  TY :: Float

text \<open>
  The event interface is a pointer that may be null: \<open>None\<close> is the null pointer and
  \<open>Some log\<close> a sink together with the events dispatched to it so far, oldest first.
\<close>

record DataInstance =
  i_pCache :: Cache
  i_pData :: DataDefinition
  i_pEventInterface :: "KeyFrameEvent list option"
  i_vBones :: "BoneInstance list"
  i_tDeforms :: "DeformKey \<rightharpoonup> Float list"
  i_tDeformReferences :: "DeformKey \<rightharpoonup> int"
  i_vDrawOrder :: "int list"
  i_vIk :: "IkInstance list"
  i_vPaths :: "PathInstance list"
  i_vSkinningPalette :: "Matrix2x3 list"
  i_vSlots :: "SlotInstance list"
  i_vTransformConstraintStates :: "TransformConstraintInstance list"

section \<open>Key frame lookup and curves (KeyFrameEvaluator)\<close>







section \<open>The IK evaluator (Animation2DClipInstance.cpp)\<close>




section \<open>Committing the cache (DataInstance::ApplyCache)\<close>

















section \<open>The draw-order evaluator (Animation2DClipInstance.cpp)\<close>












section \<open>The slot-attachment evaluator (Animation2DClipInstance.cpp)\<close>




section \<open>The continuous evaluators (Animation2DClipInstance.cpp)\<close>













section \<open>The deform evaluator and its reference count\<close>

text \<open>
  The constructor registers the evaluator's key in the instance's table of deform
  references; it creates no buffer.
\<close>

definition DeformEvaluator_construct :: "DeformKey \<Rightarrow> DataInstance \<Rightarrow> DataInstance" where
  "DeformEvaluator_construct k r =
     (case i_tDeformReferences r k of
        None \<Rightarrow> r\<lparr>i_tDeformReferences := (i_tDeformReferences r)(k \<mapsto> 1)\<rparr>
      | Some p \<Rightarrow> r\<lparr>i_tDeformReferences := (i_tDeformReferences r)(k \<mapsto> p + 1)\<rparr>)"

text \<open>
  The destructor decrements the count and, at zero, erases the count and the buffer. Its
  assertions (the key is registered, the count is positive) are compiled out of a
  release build; an unregistered key is a null dereference.
\<close>

definition DeformEvaluator_destroy :: "DeformKey \<Rightarrow> DataInstance \<Rightarrow> fault + DataInstance" where
  "DeformEvaluator_destroy k r =
     (case i_tDeformReferences r k of
        None \<Rightarrow> Inl NullDereference
      | Some p \<Rightarrow>
          if p - 1 = 0
          then Inr (r\<lparr>i_tDeformReferences := (i_tDeformReferences r)(k := None),
                     i_tDeforms := (i_tDeforms r)(k := None)\<rparr>)
          else Inr (r\<lparr>i_tDeformReferences := (i_tDeformReferences r)(k \<mapsto> p - 1)\<rparr>))"


section \<open>Evaluators as one type, and the clip instance\<close>

text \<open>
  An evaluator is its key frames, its index or key into the instance, and, for the
  key frame evaluators, the index \<open>m_uLastKeyFrame\<close>. The event evaluator's \<open>Evaluate\<close>
  does nothing.
\<close>

datatype Evaluator =
    DrawOrderEvaluator "KeyFrameDrawOrder list"
  | EventEvaluator "KeyFrameEvent list" Float
  | DeformEvaluator "KeyFrameDeform list" DeformKey nat
  | IkEvaluator "KeyFrameIk list" int nat
  | PathMixEvaluator "KeyFramePathMix list" int nat
  | PathPositionEvaluator "KeyFramePathPosition list" int nat
  | PathSpacingEvaluator "KeyFramePathSpacing list" int nat
  | RotationEvaluator "KeyFrameRotation list" int nat
  | ScaleEvaluator "KeyFrameScale list" int nat
  | ShearEvaluator "KeyFrame2D list" int nat
  | SlotAttachmentEvaluator "KeyFrameAttachment list" int
  | SlotColorEvaluator "KeyFrameColor list" int nat
  | SlotTwoColorEvaluator "KeyFrameTwoColor list" int nat
  | TransformEvaluator "KeyFrameTransform list" int nat
  | TranslationEvaluator "KeyFrame2D list" int nat



section \<open>Finalization of a definition (Animation2DDataDefinition.cpp)\<close>

text \<open>
  The finalizers run after deserialization and return \<open>false\<close> on failure, here \<open>None\<close>.
  \<open>HashTable::Insert\<close> leaves an existing entry alone; \<open>GetValue\<close> reports whether the
  key is present and writes the output only then. \<open>SEOUL_VERIFY\<close> evaluates its argument
  and, in a release build, ignores the result.
\<close>

definition table_insert :: "Lookup \<Rightarrow> HString \<Rightarrow> int \<Rightarrow> Lookup" where
  "table_insert t k v = (case t k of None \<Rightarrow> t(k \<mapsto> v) | Some old \<Rightarrow> t)"

fun get_values :: "Lookup \<Rightarrow> HString list \<Rightarrow> int list option" where
  "get_values t [] = Some []"
| "get_values t (k # ks) =
     (case t k of
        None \<Rightarrow> None
      | Some v \<Rightarrow> (case get_values t ks of None \<Rightarrow> None | Some vs \<Rightarrow> Some (v # vs)))"

fun FinalizeBones_parents :: "Lookup \<Rightarrow> nat list \<Rightarrow> BoneDefinition list \<Rightarrow> BoneDefinition list option" where
  "FinalizeBones_parents t [] vBones = Some vBones"
| "FinalizeBones_parents t (i # is) vBones =
     (let bone = vBones ! i
      in if bone_ParentId bone \<noteq> [] then
           (let bone' = (case t (bone_ParentId bone) of
                           None \<Rightarrow> bone
                         | Some p \<Rightarrow> bone\<lparr>bone_iParent := p\<rparr>)
            in if bone_iParent bone' \<ge> int i then None
               else FinalizeBones_parents t is (vBones[i := bone']))
         else FinalizeBones_parents t is vBones)"

definition FinalizeBones :: "DataDefinition \<Rightarrow> DataDefinition option" where
  "FinalizeBones d =
     (let u = length (m_vBones d);
          t = fold (\<lambda>i t. table_insert t (bone_Id (m_vBones d ! i)) (to_Int16 (int i))) [0..<u] Map.empty
      in case FinalizeBones_parents t [0..<u] (m_vBones d) of
           None \<Rightarrow> None
         | Some vBones \<Rightarrow> Some (d\<lparr>m_tBones := t, m_vBones := vBones\<rparr>))"

fun FinalizeIk_loop :: "Lookup \<Rightarrow> nat list \<Rightarrow> IkDefinition list \<Rightarrow> Lookup
    \<Rightarrow> (IkDefinition list \<times> Lookup) option" where
  "FinalizeIk_loop tBones [] vIk tIk = Some (vIk, tIk)"
| "FinalizeIk_loop tBones (i # is) vIk tIk =
     (let ik = vIk ! i;
          tIk' = table_insert tIk (ik_Id ik) (to_Int16 (int i))
      in case tBones (ik_TargetId ik) of
           None \<Rightarrow> None
         | Some iTarget \<Rightarrow>
             if length (ik_vBoneIds ik) < 1 then None
             else (case get_values tBones (ik_vBoneIds ik) of
                     None \<Rightarrow> None
                   | Some viBones \<Rightarrow>
                       FinalizeIk_loop tBones is (vIk[i := ik\<lparr>ik_iTarget := iTarget, ik_viBones := viBones\<rparr>]) tIk'))"

definition FinalizeIk :: "DataDefinition \<Rightarrow> DataDefinition option" where
  "FinalizeIk d =
     (case FinalizeIk_loop (m_tBones d) [0..<length (m_vIk d)] (m_vIk d) (DataDefinition.m_tIk d) of
        None \<Rightarrow> None
      | Some (vIk, tIk) \<Rightarrow> Some (d\<lparr>m_vIk := vIk, DataDefinition.m_tIk := tIk\<rparr>))"

fun FinalizeSlots_loop :: "Lookup \<Rightarrow> nat list \<Rightarrow> SlotDataDefinition list \<Rightarrow> Lookup
    \<Rightarrow> (SlotDataDefinition list \<times> Lookup) option" where
  "FinalizeSlots_loop tBones [] vSlots tSlots = Some (vSlots, tSlots)"
| "FinalizeSlots_loop tBones (i # is) vSlots tSlots =
     (let slot = vSlots ! i;
          tSlots' = table_insert tSlots (slot_Id slot) (to_Int16 (int i))
      in case tBones (slot_BoneId slot) of
           None \<Rightarrow> None
         | Some iBone \<Rightarrow> FinalizeSlots_loop tBones is (vSlots[i := slot\<lparr>slot_iBone := iBone\<rparr>]) tSlots')"

definition FinalizeSlots :: "DataDefinition \<Rightarrow> DataDefinition option" where
  "FinalizeSlots d =
     (case FinalizeSlots_loop (m_tBones d) [0..<length (m_vSlots d)] (m_vSlots d) (m_tSlots d) of
        None \<Rightarrow> None
      | Some (vSlots, tSlots) \<Rightarrow> Some (d\<lparr>m_vSlots := vSlots, m_tSlots := tSlots\<rparr>))"

fun FinalizePaths_loop :: "Lookup \<Rightarrow> Lookup \<Rightarrow> nat list \<Rightarrow> PathDefinition list \<Rightarrow> Lookup
    \<Rightarrow> (PathDefinition list \<times> Lookup) option" where
  "FinalizePaths_loop tBones tSlots [] vPaths tPaths = Some (vPaths, tPaths)"
| "FinalizePaths_loop tBones tSlots (i # is) vPaths tPaths =
     (let path = vPaths ! i;
          tPaths' = table_insert tPaths (path_Id path) (to_Int16 (int i))
      in case tSlots (path_TargetId path) of
           None \<Rightarrow> None
         | Some iTarget \<Rightarrow>
             if length (path_vBoneIds path) < 1 then None
             else (case get_values tBones (path_vBoneIds path) of
                     None \<Rightarrow> None
                   | Some viBones \<Rightarrow>
                       FinalizePaths_loop tBones tSlots is
                         (vPaths[i := path\<lparr>path_iTarget := iTarget, path_viBones := viBones\<rparr>]) tPaths'))"

definition FinalizePaths :: "DataDefinition \<Rightarrow> DataDefinition option" where
  "FinalizePaths d =
     (case FinalizePaths_loop (m_tBones d) (m_tSlots d) [0..<length (m_vPaths d)] (m_vPaths d) (m_tPaths d) of
        None \<Rightarrow> None
      | Some (vPaths, tPaths) \<Rightarrow> Some (d\<lparr>m_vPaths := vPaths, m_tPaths := tPaths\<rparr>))"

fun FinalizeTransforms_loop :: "Lookup \<Rightarrow> nat list \<Rightarrow> TransformConstraintDefinition list \<Rightarrow> Lookup
    \<Rightarrow> (TransformConstraintDefinition list \<times> Lookup) option" where
  "FinalizeTransforms_loop tBones [] vTransforms tTransforms = Some (vTransforms, tTransforms)"
| "FinalizeTransforms_loop tBones (i # is) vTransforms tTransforms =
     (let transform = vTransforms ! i;
          tTransforms' = table_insert tTransforms (tc_Id transform) (to_Int16 (int i))
      in case tBones (tc_TargetId transform) of
           None \<Rightarrow> None
         | Some iTarget \<Rightarrow>
             if length (tc_vBoneIds transform) < 1 then None
             else (case get_values tBones (tc_vBoneIds transform) of
                     None \<Rightarrow> None
                   | Some viBones \<Rightarrow>
                       FinalizeTransforms_loop tBones is
                         (vTransforms[i := transform\<lparr>tc_iTarget := iTarget, tc_viBones := viBones\<rparr>]) tTransforms'))"

definition FinalizeTransforms :: "DataDefinition \<Rightarrow> DataDefinition option" where
  "FinalizeTransforms d =
     (case FinalizeTransforms_loop (m_tBones d) [0..<length (m_vTransforms d)] (m_vTransforms d) (m_tTransforms d) of
        None \<Rightarrow> None
      | Some (vTransforms, tTransforms) \<Rightarrow> Some (d\<lparr>m_vTransforms := vTransforms, m_tTransforms := tTransforms\<rparr>))"

section \<open>The pose task list (DataDefinition::FinalizePoseTasks)\<close>

definition bindF :: "fault + 'a \<Rightarrow> ('a \<Rightarrow> fault + 'b) \<Rightarrow> fault + 'b" where
  "bindF x f = (case x of Inl e \<Rightarrow> Inl e | Inr v \<Rightarrow> f v)"

fun foldF :: "('a \<Rightarrow> 's \<Rightarrow> fault + 's) \<Rightarrow> 'a list \<Rightarrow> 's \<Rightarrow> fault + 's" where
  "foldF f [] s = Inr s"
| "foldF f (x # xs) s = bindF (f x s) (foldF f xs)"

datatype PoseTaskType = kBone | kIk | kPath | kTransform

text \<open>
  \<open>PoseOrder\<close> keeps the type, the order narrowed to \<open>Int8\<close> and the index narrowed to
  \<open>UInt16\<close>; its \<open>operator<\<close> compares the orders. The engine's \<open>QuickSort\<close> is modelled
  as insertion sort by that operator, as for the cache's attachment entries.
\<close>

record PoseOrder =
  po_iType :: PoseTaskType
  po_iOrder :: int
  po_uIndex :: int

definition to_Int8 :: "int \<Rightarrow> int" where
  "to_Int8 x = (x + 128) mod 256 - 128"

definition mk_PoseOrder :: "PoseTaskType \<Rightarrow> int \<Rightarrow> nat \<Rightarrow> PoseOrder" where
  "mk_PoseOrder ty iOrder uIndex = \<lparr>po_iType = ty, po_iOrder = to_Int8 iOrder, po_uIndex = int uIndex mod 65536\<rparr>"

fun insort_order :: "PoseOrder \<Rightarrow> PoseOrder list \<Rightarrow> PoseOrder list" where
  "insort_order x [] = [x]"
| "insort_order x (y # ys) = (if po_iOrder x < po_iOrder y then x # y # ys else y # insort_order x ys)"

definition QuickSort_order :: "PoseOrder list \<Rightarrow> PoseOrder list" where
  "QuickSort_order xs = foldl (\<lambda>acc x. insort_order x acc) [] xs"

text \<open>
  \<open>EvalBone\<close> recurses into the parent before it marks the bone, so a cycle of parent
  indices recurses without end. The model gives the recursion as much fuel as there are
  bones and one more; it runs out only on a cycle.
\<close>

fun EvalBone :: "nat \<Rightarrow> BoneDefinition list \<Rightarrow> int \<Rightarrow> bool list \<times> PoseTask list
    \<Rightarrow> fault + (bool list \<times> PoseTask list)" where
  "EvalBone 0 vBones iBone (ab, rv) =
     (if iBone < 0 then Inr (ab, rv)
      else case vec_get ab iBone of
        Inl f \<Rightarrow> Inl f
      | Inr rb \<Rightarrow> if rb then Inr (ab, rv) else Inl StackOverflow)"
| "EvalBone (Suc n) vBones iBone (ab, rv) =
     (if iBone < 0 then Inr (ab, rv)
      else case vec_get ab iBone of
        Inl f \<Rightarrow> Inl f
      | Inr rb \<Rightarrow>
          if rb then Inr (ab, rv)
          else (case vec_get vBones iBone of
                  Inl f \<Rightarrow> Inl f
                | Inr bone \<Rightarrow>
                   (case EvalBone n vBones (bone_iParent bone) (ab, rv) of
                      Inl f \<Rightarrow> Inl f
                    | Inr (ab', rv') \<Rightarrow>
                        Inr (ab'[nat iBone := True],
                             if iBone \<noteq> 0 then rv' @ [BoneTask (to_Int16 iBone)] else rv'))))"

text \<open>
  \<open>EvalResetChildren\<close> visits the bones after \<open>iParent\<close> in a loop over \<open>i\<close> and recurses
  into the marked children. \<open>reset_children\<close> is the loop from index \<open>i\<close> on; both the
  loop and the recursion move to larger indices. The callers pass bone indices of the
  definition; an index below 0 would read outside the vector, and the model stops there.
\<close>

function reset_children :: "BoneDefinition list \<Rightarrow> int \<Rightarrow> int \<Rightarrow> bool list \<Rightarrow> bool list" where
  "reset_children vBones iParent i ab =
     (if 0 \<le> i \<and> i < int (length vBones) then
        (if bone_iParent (vBones ! nat i) = iParent
         then reset_children vBones iParent (i + 1)
                ((if ab ! nat i then reset_children vBones i (i + 1) ab else ab)[nat i := False])
         else reset_children vBones iParent (i + 1) ab)
      else ab)"
  by pat_completeness auto
termination
  by (relation "measure (\<lambda>(vBones, iParent, i, ab). nat (int (length vBones) - i))") auto

declare reset_children.simps [simp del]

definition EvalResetChildren :: "BoneDefinition list \<Rightarrow> int \<Rightarrow> bool list \<Rightarrow> bool list" where
  "EvalResetChildren vBones iParent ab = reset_children vBones iParent (iParent + 1) ab"

text \<open>
  The bone-count array of a path attachment is a sequence of groups, each a count
  followed by that many bone indices; every index of every group is evaluated.
\<close>

function eval_bone_counts :: "nat \<Rightarrow> BoneDefinition list \<Rightarrow> int list \<Rightarrow> bool list \<times> PoseTask list
    \<Rightarrow> fault + (bool list \<times> PoseTask list)" where
  "eval_bone_counts fuel vBones [] s = Inr s"
| "eval_bone_counts fuel vBones (nn # bones) s =
     (if int (length bones) < nn then Inl IndexOutOfRange
      else bindF (foldF (EvalBone fuel vBones) (take (nat nn) bones) s)
                 (eval_bone_counts fuel vBones (drop (nat nn) bones)))"
  by pat_completeness auto
termination
  by (relation "measure (\<lambda>(fuel, vBones, bones, s). length bones)") auto

definition pose_ik :: "nat \<Rightarrow> DataDefinition \<Rightarrow> int \<Rightarrow> bool list \<times> PoseTask list
    \<Rightarrow> fault + (bool list \<times> PoseTask list) option" where
  "pose_ik fuel d uIndex s =
     bindF (vec_get (m_vIk d) uIndex) (\<lambda>ik.
     bindF (EvalBone fuel (m_vBones d) (ik_iTarget ik) s) (\<lambda>s1.
     bindF (EvalBone fuel (m_vBones d) (hd (ik_viBones ik)) s1) (\<lambda>s2.
       (let rv = snd s2 @ [IkTask (to_Int16 uIndex)];
            ab = EvalResetChildren (m_vBones d) (hd (ik_viBones ik)) (fst s2)
        in bindF (vec_set ab (last (ik_viBones ik)) True) (\<lambda>ab'. Inr (Some (ab', rv)))))))"

definition pose_path :: "nat \<Rightarrow> DataDefinition \<Rightarrow> int \<Rightarrow> bool list \<times> PoseTask list
    \<Rightarrow> fault + (bool list \<times> PoseTask list) option" where
  "pose_path fuel d uIndex s =
     bindF (vec_get (m_vPaths d) uIndex) (\<lambda>path.
       if \<not> m_bDefaultSkin d then Inr None
       else case m_tPathBones d (path_TargetId path) of
         None \<Rightarrow> Inr None
       | Some attachments \<Rightarrow>
           if list_ex (\<lambda>a. a = None) (takeWhile (\<lambda>a. a \<noteq> None) attachments @ take 1 (dropWhile (\<lambda>a. a \<noteq> None) attachments))
           then bindF (foldF (\<lambda>a. eval_bone_counts fuel (m_vBones d) (the a))
                         (takeWhile (\<lambda>a. a \<noteq> None) attachments) s) (\<lambda>s'. Inr None)
           else
             bindF (foldF (\<lambda>a. eval_bone_counts fuel (m_vBones d) (the a)) attachments s) (\<lambda>s1.
             bindF (foldF (EvalBone fuel (m_vBones d)) (path_viBones path) s1) (\<lambda>s2.
               (let rv = snd s2 @ [PathTask (to_Int16 uIndex)];
                    ab = fold (EvalResetChildren (m_vBones d)) (path_viBones path) (fst s2)
                in bindF (foldF (\<lambda>bone ab. vec_set ab bone True) (path_viBones path) ab)
                     (\<lambda>ab'. Inr (Some (ab', rv)))))))"

definition pose_transform :: "nat \<Rightarrow> DataDefinition \<Rightarrow> int \<Rightarrow> bool list \<times> PoseTask list
    \<Rightarrow> fault + (bool list \<times> PoseTask list) option" where
  "pose_transform fuel d uIndex s =
     bindF (vec_get (m_vTransforms d) uIndex) (\<lambda>transform.
     bindF (EvalBone fuel (m_vBones d) (tc_iTarget transform) s) (\<lambda>s1.
     bindF (if tc_bLocal transform
            then foldF (\<lambda>bone s.
                   bindF (vec_get (m_vBones d) bone) (\<lambda>b.
                   bindF (EvalBone fuel (m_vBones d) (bone_iParent b) s) (EvalBone fuel (m_vBones d) bone)))
                   (tc_viBones transform) s1
            else foldF (EvalBone fuel (m_vBones d)) (tc_viBones transform) s1) (\<lambda>s2.
       (let rv = snd s2 @ [TransformTask (to_Int16 uIndex)];
            ab = fold (EvalResetChildren (m_vBones d)) (tc_viBones transform) (fst s2)
        in bindF (foldF (\<lambda>bone ab. vec_set ab bone True) (tc_viBones transform) ab)
             (\<lambda>ab'. Inr (Some (ab', rv)))))))"

fun pose_orders :: "nat \<Rightarrow> DataDefinition \<Rightarrow> PoseOrder list \<Rightarrow> bool list \<times> PoseTask list
    \<Rightarrow> fault + (bool list \<times> PoseTask list) option" where
  "pose_orders fuel d [] s = Inr (Some s)"
| "pose_orders fuel d (e # es) s =
     bindF (case po_iType e of
              kIk \<Rightarrow> pose_ik fuel d (po_uIndex e) s
            | kPath \<Rightarrow> pose_path fuel d (po_uIndex e) s
            | kTransform \<Rightarrow> pose_transform fuel d (po_uIndex e) s
            | kBone \<Rightarrow> Inr (Some s))
       (\<lambda>res. case res of None \<Rightarrow> Inr None | Some s' \<Rightarrow> pose_orders fuel d es s')"

definition FinalizePoseTasks :: "DataDefinition \<Rightarrow> fault + DataDefinition option" where
  "FinalizePoseTasks d =
     (let uBones = length (m_vBones d);
          aOrder = map (\<lambda>i. mk_PoseOrder kIk (ik_iOrder (m_vIk d ! i)) i) [0..<length (m_vIk d)]
                 @ map (\<lambda>i. mk_PoseOrder kPath (path_iOrder (m_vPaths d ! i)) i) [0..<length (m_vPaths d)]
                 @ map (\<lambda>i. mk_PoseOrder kTransform (tc_iOrder (m_vTransforms d ! i)) i) [0..<length (m_vTransforms d)]
      in bindF (pose_orders (Suc uBones) d (QuickSort_order aOrder) (replicate uBones False, []))
           (\<lambda>res. case res of
              None \<Rightarrow> Inr None
            | Some (ab, rv) \<Rightarrow>
                Inr (Some (d\<lparr>m_vPoseTasks :=
                  rv @ map (\<lambda>i. BoneTask (to_Int16 (int i))) (filter (\<lambda>i. \<not> ab ! i) [1..<uBones])\<rparr>))))"

text \<open>
  The finalizers in the order of \<open>CustomDeserializeType\<close>. \<open>FinalizeSkins\<close> reads and
  writes only skins and attachments, which the model leaves out: its result is the
  parameter \<open>bSkins\<close>.
\<close>

definition Finalize :: "bool \<Rightarrow> DataDefinition \<Rightarrow> fault + DataDefinition option" where
  "Finalize bSkins d =
     (case FinalizeBones d of None \<Rightarrow> Inr None | Some d1 \<Rightarrow>
      case FinalizeIk d1 of None \<Rightarrow> Inr None | Some d2 \<Rightarrow>
      if \<not> bSkins then Inr None else
      case FinalizeSlots d2 of None \<Rightarrow> Inr None | Some d3 \<Rightarrow>
      case FinalizePaths d3 of None \<Rightarrow> Inr None | Some d4 \<Rightarrow>
      case FinalizeTransforms d4 of None \<Rightarrow> Inr None | Some d5 \<Rightarrow>
      FinalizePoseTasks d5)"

section \<open>A frame of two evaluator calls\<close>









section \<open>The event evaluator\<close>






section \<open>The clip instance\<close>



record ClipInstance =
  m_fEventMixThreshold :: Float
  m_fMaxTime :: Float
  m_vEvaluators :: "Evaluator list"
  m_pEventEvaluator :: "(KeyFrameEvent list \<times> Float) option"





text \<open>
  \<open>InternalConstructEvaluators\<close>. The state of its loops is the maximum time, the
  evaluators pushed so far and, for the deform evaluators' constructor, the instance.
  A time line's \<open>Back()\<close> is \<open>last\<close>.
\<close>

definition push_timeline :: "Float \<Rightarrow> Evaluator \<Rightarrow> Float \<times> Evaluator list \<Rightarrow> Float \<times> Evaluator list" where
  "push_timeline fBackTime E s = (max (fst s) fBackTime, snd s @ [E])"

definition bone_evaluators :: "DataDefinition \<Rightarrow> HString \<times> BoneKeyFrames \<Rightarrow> Float \<times> Evaluator list
    \<Rightarrow> Float \<times> Evaluator list" where
  "bone_evaluators d kv s =
     (let entry = snd kv; iBone = GetBoneIndex d (fst kv)
      in if iBone < 0 then s
         else
           (let s1 = (if m_vRotation entry \<noteq> []
                      then push_timeline (m_fTime (last (m_vRotation entry))) (RotationEvaluator (m_vRotation entry) iBone 0) s
                      else s);
                s2 = (if m_vScale entry \<noteq> []
                      then push_timeline (m_fTime (last (m_vScale entry))) (ScaleEvaluator (m_vScale entry) iBone 0) s1
                      else s1);
                s3 = (if m_vShear entry \<noteq> []
                      then push_timeline (m_fTime (last (m_vShear entry))) (ShearEvaluator (m_vShear entry) iBone 0) s2
                      else s2)
            in if m_vTranslation entry \<noteq> []
               then push_timeline (m_fTime (last (m_vTranslation entry))) (TranslationEvaluator (m_vTranslation entry) iBone 0) s3
               else s3))"

definition deform_evaluators :: "DeformKey \<times> KeyFrameDeform list \<Rightarrow> (Float \<times> Evaluator list) \<times> DataInstance
    \<Rightarrow> (Float \<times> Evaluator list) \<times> DataInstance" where
  "deform_evaluators kv sr =
     (push_timeline (m_fTime (last (snd kv))) (DeformEvaluator (snd kv) (fst kv) 0) (fst sr),
      DeformEvaluator_construct (fst kv) (snd sr))"

definition ik_evaluators :: "DataDefinition \<Rightarrow> HString \<times> KeyFrameIk list \<Rightarrow> Float \<times> Evaluator list
    \<Rightarrow> Float \<times> Evaluator list" where
  "ik_evaluators d kv s =
     (let entry = snd kv; iIk = GetIkIndex d (fst kv)
      in push_timeline (m_fTime (last entry)) (IkEvaluator entry iIk 0) s)"

definition path_evaluators :: "DataDefinition \<Rightarrow> HString \<times> PathKeyFrames \<Rightarrow> Float \<times> Evaluator list
    \<Rightarrow> Float \<times> Evaluator list" where
  "path_evaluators d kv s =
     (let entry = snd kv; iPath = GetPathIndex d (fst kv);
          s1 = (if m_vMix entry \<noteq> []
                then push_timeline (m_fTime (last (m_vMix entry))) (PathMixEvaluator (m_vMix entry) iPath 0) s
                else s);
          s2 = (if m_vPosition entry \<noteq> []
                then push_timeline (m_fTime (last (m_vPosition entry))) (PathPositionEvaluator (m_vPosition entry) iPath 0) s1
                else s1)
      in if m_vSpacing entry \<noteq> []
         then push_timeline (m_fTime (last (m_vSpacing entry))) (PathSpacingEvaluator (m_vSpacing entry) iPath 0) s2
         else s2)"

definition slot_evaluators :: "DataDefinition \<Rightarrow> HString \<times> SlotKeyFrames \<Rightarrow> Float \<times> Evaluator list
    \<Rightarrow> Float \<times> Evaluator list" where
  "slot_evaluators d kv s =
     (let entry = snd kv; iSlot = GetSlotIndex d (fst kv);
          s1 = (if m_vAttachment entry \<noteq> []
                then push_timeline (ka_fTime (last (m_vAttachment entry))) (SlotAttachmentEvaluator (m_vAttachment entry) iSlot) s
                else s);
          s2 = (if m_vColor entry \<noteq> []
                then push_timeline (m_fTime (last (m_vColor entry))) (SlotColorEvaluator (m_vColor entry) iSlot 0) s1
                else s1)
      in if m_vTwoColor entry \<noteq> []
         then push_timeline (m_fTime (last (m_vTwoColor entry))) (SlotTwoColorEvaluator (m_vTwoColor entry) iSlot 0) s2
         else s2)"

definition transform_evaluators :: "DataDefinition \<Rightarrow> HString \<times> KeyFrameTransform list \<Rightarrow> Float \<times> Evaluator list
    \<Rightarrow> Float \<times> Evaluator list" where
  "transform_evaluators d kv s =
     (let v = snd kv; iTransform = GetTransformIndex d (fst kv)
      in push_timeline (m_fTime (last v)) (TransformEvaluator v iTransform 0) s)"

definition InternalConstructEvaluators :: "Clip \<Rightarrow> Float \<Rightarrow> DataInstance \<Rightarrow> ClipInstance \<times> DataInstance" where
  "InternalConstructEvaluators pClip fEventMixThreshold r =
     (let d = i_pData r;
          s1 = fold (bone_evaluators d) (clip_tBones pClip) (0, []);
          (s2, r') = fold deform_evaluators (clip_tDeforms pClip) (s1, r);
          s3 = (if clip_vDrawOrder pClip \<noteq> []
                then push_timeline (kdo_fTime (last (clip_vDrawOrder pClip))) (DrawOrderEvaluator (clip_vDrawOrder pClip)) s2
                else s2);
          s4 = (if clip_vEvents pClip \<noteq> []
                then push_timeline (ke_fTime (last (clip_vEvents pClip))) (EventEvaluator (clip_vEvents pClip) fEventMixThreshold) s3
                else s3);
          s5 = fold (ik_evaluators d) (clip_tIk pClip) s4;
          s6 = fold (path_evaluators d) (clip_tPaths pClip) s5;
          s7 = fold (slot_evaluators d) (clip_tSlots pClip) s6;
          s8 = fold (transform_evaluators d) (clip_tTransforms pClip) s7
      in (\<lparr>m_fEventMixThreshold = fEventMixThreshold, m_fMaxTime = fst s8, m_vEvaluators = snd s8,
           m_pEventEvaluator = (if clip_vEvents pClip \<noteq> [] then Some (clip_vEvents pClip, fEventMixThreshold) else None)\<rparr>,
          r'))"


section \<open>Example data\<close>

text \<open>
  A rig of one root bone, a list of slots and one one-bone IK constraint whose rest pose
  bends positive, and an IK key frame whose only varying value is the bend direction.
\<close>

definition white :: RGBA where
  "white = \<lparr>m_R = 255, m_G = 255, m_B = 255, m_A = 255\<rparr>"

definition ex_bone :: "HString \<Rightarrow> HString \<Rightarrow> int \<Rightarrow> BoneDefinition" where
  "ex_bone ident parent iParent = \<lparr>bone_Id = ident, bone_ParentId = parent, bone_fLength = 10,
     bone_fPositionX = 0, bone_fPositionY = 0, bone_fRotationInDegrees = 0,
     bone_fScaleX = 1, bone_fScaleY = 1, bone_fShearX = 0, bone_fShearY = 0,
     bone_eTransformMode = kNormal, bone_iParent = iParent\<rparr>"

definition ex_slot :: "HString \<Rightarrow> HString \<Rightarrow> SlotDataDefinition" where
  "ex_slot ident att = \<lparr>slot_Id = ident, slot_AttachmentId = att, slot_Color = white,
     slot_BoneId = ''root'', slot_iBone = 0, slot_SecondaryColor = white\<rparr>"

definition ex_ik :: IkDefinition where
  "ex_ik = \<lparr>ik_vBoneIds = [''root''], ik_viBones = [0], ik_Id = ''aim'', ik_TargetId = ''root'',
     ik_fMix = 1, ik_fSoftness = 0, ik_iOrder = 0, ik_iTarget = 0, ik_bBendPositive = True,
     ik_bCompress = False, ik_bStretch = False, ik_bUniform = False\<rparr>"

definition ex_data :: "SlotDataDefinition list \<Rightarrow> DataDefinition" where
  "ex_data slots = \<lparr>m_vBones = [ex_bone ''root'' [] (-1)], m_tBones = [''root'' \<mapsto> 0],
     m_vCurves = [], m_vIk = [ex_ik], m_tIk = [''aim'' \<mapsto> 0], m_vPaths = [], m_tPaths = Map.empty,
     m_vPoseTasks = [IkTask 0], m_bDefaultSkin = True, m_tPathBones = Map.empty,
     m_vSlots = slots,
     m_tSlots = map_of (rev (map (\<lambda>i. (slot_Id (slots ! i), int i)) [0..<length slots])),
     m_vTransforms = [], m_tTransforms = Map.empty\<rparr>"

definition ex_cache :: Cache where
  "ex_cache = \<lparr>m_vAttachments = [], m_tColor = Map.empty, m_tTwoColor = Map.empty,
     m_vDrawOrder = [], m_tIk = Map.empty, m_tPathMix = Map.empty,
     m_tPathPosition = Map.empty, m_tPathSpacing = Map.empty, m_tPosition = Map.empty,
     m_tRotation = Map.empty, m_tScale = Map.empty, m_tShear = Map.empty,
     m_tTransform = Map.empty, m_SlotScratch = {}, m_vDrawOrderScratch = []\<rparr>"

definition ex_instance :: "SlotDataDefinition list \<Rightarrow> DataInstance" where
  "ex_instance slots = \<lparr>i_pCache = ex_cache, i_pData = ex_data slots, i_pEventInterface = Some [],
     i_vBones = [\<lparr>bi_fPositionX = 0, bi_fPositionY = 0, bi_fRotationInDegrees = 0,
                  bi_fScaleX = 1, bi_fScaleY = 1, bi_fShearX = 0, bi_fShearY = 0\<rparr>],
     i_tDeforms = Map.empty, i_tDeformReferences = Map.empty,
     i_vDrawOrder = map int [0..<length slots],
     i_vIk = [\<lparr>iki_fMix = 1, iki_fSoftness = 0, iki_bBendPositive = True, iki_bCompress = False,
               iki_bStretch = False, iki_bUniform = False\<rparr>],
     i_vPaths = [],
     i_vSkinningPalette = [\<lparr>M00 = 1, M01 = 0, M10 = 0, M11 = 1, TX = 0, TY = 0\<rparr>],
     i_vSlots = map (\<lambda>s. \<lparr>si_AttachmentId = slot_AttachmentId s, si_Color = slot_Color s\<rparr>) slots,
     i_vTransformConstraintStates = []\<rparr>"



text \<open>Four slots \<open>s0\<close> to \<open>s3\<close>, and draw-order key frames at second 0.\<close>

definition ex_slots :: "nat \<Rightarrow> SlotDataDefinition list" where
  "ex_slots n = map (\<lambda>i. ex_slot ([CHR ''s'', char_of (48 + i)]) ''default'') [0..<n]"









text \<open>A clip whose only time line sets the attachment of slot \<open>s0\<close> at half a second.\<close>

definition ex_attachment_clip :: Clip where
  "ex_attachment_clip = \<lparr>clip_tBones = [], clip_tDeforms = [], clip_vDrawOrder = [], clip_vEvents = [],
     clip_tIk = [], clip_tPaths = [],
     clip_tSlots = [(''s0'', \<lparr>m_vAttachment = [\<lparr>ka_fTime = 1 / 2, ka_Id = ''A''\<rparr>], m_vColor = [], m_vTwoColor = []\<rparr>)],
     clip_tTransforms = []\<rparr>"

text \<open>
  A clip with a rotation time line for a bone the rig does not have, next to an
  attachment time line, and a rig whose IK constraint names a target bone that does not
  exist.
\<close>

definition ex_ghost_clip :: Clip where
  "ex_ghost_clip = ex_attachment_clip\<lparr>clip_tBones :=
     [(''ghost'', \<lparr>m_vRotation = [\<lparr>m_fTime = 0, m_uCurveType = kLinear, m_uCurveDataOffset = 0,
                                     kr_fAngleInDegrees = 90\<rparr>],
                   m_vScale = [], m_vShear = [], m_vTranslation = []\<rparr>)]\<rparr>"

definition ex_missing_target :: DataDefinition where
  "ex_missing_target = (ex_data (ex_slots 2))\<lparr>m_vIk := [ex_ik\<lparr>ik_TargetId := ''hand''\<rparr>]\<rparr>"

section \<open>Draw order: the committed order is a permutation\<close>



















section \<open>Event dispatch\<close>








section \<open>Slot attachments: the top-weight group wins\<close>


lemma entry_not_less_trans: "\<not> entry_less y x \<Longrightarrow> \<not> entry_less z y \<Longrightarrow> \<not> entry_less z x"
  by (auto simp: entry_less_def split: if_splits)





















section \<open>Quantization of clip times\<close>







section \<open>Order of the evaluator calls of a frame\<close>






































section \<open>Missing bones and missing constraint targets\<close>

lemma dom_table_insert: "dom (table_insert t k v) = insert k (dom t)"
  by (cases "t k") (auto simp: table_insert_def)

lemma dom_fold_table_insert:
  "dom (fold (\<lambda>i t. table_insert t (f i) (g i)) xs t0) = dom t0 \<union> f ` set xs"
  by (induction xs arbitrary: t0) (auto simp: dom_table_insert)

lemma set_map_nth: "f ` set xs = (\<lambda>i. f (xs ! i)) ` set [0..<length xs]"
proof -
  have "map f xs = map f (map ((!) xs) [0..<length xs])" by (simp only: map_nth)
  also have "\<dots> = map (\<lambda>i. f (xs ! i)) [0..<length xs]" by (simp only: map_map comp_def)
  finally have "set (map f xs) = set (map (\<lambda>i. f (xs ! i)) [0..<length xs])" by (rule arg_cong)
  then show ?thesis by (simp only: set_map)
qed

lemma map_update_same: "(map f ys)[j := f (ys ! j)] = map f ys"
proof (cases "j < length ys")
  case True
  then have "f (ys ! j) = map f ys ! j" by simp
  then show ?thesis by (simp only: list_update_id)
next
  case False
  then show ?thesis by (simp add: list_update_beyond)
qed

lemma FinalizeBones_parents_ids:
  "FinalizeBones_parents t xs vBones = Some vBones' \<Longrightarrow> length vBones' = length vBones"
proof (induction xs arbitrary: vBones)
  case Nil
  then show ?case by simp
next
  case (Cons i xs)
  show ?case
  proof (cases "bone_ParentId (vBones ! i) = []")
    case True
    with Cons show ?thesis by simp
  next
    case False
    define b where "b = (case t (bone_ParentId (vBones ! i)) of None \<Rightarrow> vBones ! i
                         | Some p \<Rightarrow> (vBones ! i)\<lparr>bone_iParent := p\<rparr>)"
    from Cons.prems False have "FinalizeBones_parents t xs (vBones[i := b]) = Some vBones'"
      by (simp add: Let_def b_def split: if_splits)
    from Cons.IH [OF this] show ?thesis by simp
  qed
qed

lemma FinalizeBones_result:
  assumes "FinalizeBones d = Some d1"
  shows "dom (m_tBones d1) = bone_Id ` set (m_vBones d)"
    and "m_vIk d1 = m_vIk d" and "m_vPaths d1 = m_vPaths d" and "m_vSlots d1 = m_vSlots d"
    and "m_vTransforms d1 = m_vTransforms d" and "m_tSlots d1 = m_tSlots d"
proof -
  define t where "t = fold (\<lambda>i t. table_insert t (bone_Id (m_vBones d ! i)) (to_Int16 (int i)))
      [0..<length (m_vBones d)] Map.empty"
  from assms obtain vBones where d1: "d1 = d\<lparr>m_tBones := t, m_vBones := vBones\<rparr>"
    unfolding FinalizeBones_def Let_def t_def [symmetric]
    by (cases "FinalizeBones_parents t [0..<length (m_vBones d)] (m_vBones d)") auto
  have "dom t = (\<lambda>i. bone_Id (m_vBones d ! i)) ` set [0..<length (m_vBones d)]"
    unfolding t_def dom_fold_table_insert by simp
  also have "\<dots> = bone_Id ` set (m_vBones d)"
    by (rule set_map_nth [symmetric])
  finally show "dom (m_tBones d1) = bone_Id ` set (m_vBones d)" by (simp add: d1)
  show "m_vIk d1 = m_vIk d" "m_vPaths d1 = m_vPaths d" "m_vSlots d1 = m_vSlots d"
    "m_vTransforms d1 = m_vTransforms d" "m_tSlots d1 = m_tSlots d"
    by (simp_all add: d1)
qed

lemma FinalizeIk_loop_targets:
  "FinalizeIk_loop tB xs vIk tIk = Some res \<Longrightarrow> i \<in> set xs
    \<Longrightarrow> map ik_TargetId vIk ! i \<in> dom tB \<or> length vIk \<le> i"
proof (induction xs arbitrary: vIk tIk)
  case Nil
  then show ?case by simp
next
  case (Cons j xs)
  from Cons.prems(1) obtain iTarget where tg: "tB (ik_TargetId (vIk ! j)) = Some iTarget"
    by (cases "tB (ik_TargetId (vIk ! j))") (simp_all add: Let_def)
  from Cons.prems(1) tg obtain viBones where
    rest: "FinalizeIk_loop tB xs (vIk[j := (vIk ! j)\<lparr>ik_iTarget := iTarget, ik_viBones := viBones\<rparr>])
             (table_insert tIk (ik_Id (vIk ! j)) (to_Int16 (int j))) = Some res"
    by (cases "get_values tB (ik_vBoneIds (vIk ! j))") (simp_all add: Let_def split: if_splits)
  have m: "map ik_TargetId (vIk[j := (vIk ! j)\<lparr>ik_iTarget := iTarget, ik_viBones := viBones\<rparr>])
      = map ik_TargetId vIk"
    by (simp add: map_update map_update_same)
  show ?case
  proof (cases "i = j")
    case True
    show ?thesis
    proof (cases "i < length vIk")
      case True
      with tg \<open>i = j\<close> show ?thesis by auto
    next
      case False
      then show ?thesis by simp
    qed
  next
    case False
    with Cons.prems(2) have "i \<in> set xs" by simp
    from Cons.IH [OF rest this] show ?thesis unfolding m by simp
  qed
qed

lemma FinalizeIk_missing_target:
  assumes "ik \<in> set (m_vIk d)" "ik_TargetId ik \<notin> dom (m_tBones d)"
  shows "FinalizeIk d = None"
proof (rule ccontr)
  assume "FinalizeIk d \<noteq> None"
  then obtain res where r: "FinalizeIk_loop (m_tBones d) [0..<length (m_vIk d)] (m_vIk d) (DataDefinition.m_tIk d) = Some res"
    unfolding FinalizeIk_def by (auto split: option.splits)
  from assms(1) obtain i where i: "i < length (m_vIk d)" "m_vIk d ! i = ik"
    by (auto simp: in_set_conv_nth)
  from FinalizeIk_loop_targets [OF r, of i] i assms(2) show False by simp
qed

lemma FinalizeIk_result:
  assumes "FinalizeIk d = Some d1"
  shows "m_tBones d1 = m_tBones d" and "m_vPaths d1 = m_vPaths d" and "m_vSlots d1 = m_vSlots d"
    and "m_vTransforms d1 = m_vTransforms d" and "m_tSlots d1 = m_tSlots d"
  using assms unfolding FinalizeIk_def by (auto split: option.splits)

lemma nth_update_same_field:
  assumes "f x = f (ys ! j)"
  shows "f (ys[j := x] ! i) = f (ys ! i)"
proof (cases "j < length ys")
  case True
  with assms show ?thesis by (cases "i = j") simp_all
next
  case False
  then show ?thesis by (simp add: list_update_beyond)
qed

lemma FinalizeSlots_loop_dom:
  "FinalizeSlots_loop tB xs vSlots tSlots = Some (vSlots', tSlots')
    \<Longrightarrow> dom tSlots' = dom tSlots \<union> (\<lambda>i. slot_Id (vSlots ! i)) ` set xs"
proof (induction xs arbitrary: vSlots tSlots)
  case Nil
  then show ?case by simp
next
  case (Cons j xs)
  from Cons.prems obtain iBone where
    rest: "FinalizeSlots_loop tB xs (vSlots[j := (vSlots ! j)\<lparr>slot_iBone := iBone\<rparr>])
             (table_insert tSlots (slot_Id (vSlots ! j)) (to_Int16 (int j))) = Some (vSlots', tSlots')"
    by (cases "tB (slot_BoneId (vSlots ! j))") (simp_all add: Let_def)
  have m: "slot_Id (vSlots[j := (vSlots ! j)\<lparr>slot_iBone := iBone\<rparr>] ! i) = slot_Id (vSlots ! i)" for i
    by (rule nth_update_same_field) simp
  from Cons.IH [OF rest] show ?case
    unfolding m by (simp add: dom_table_insert)
qed

lemma FinalizeSlots_result:
  assumes "FinalizeSlots d = Some d1"
  shows "dom (m_tSlots d1) = dom (m_tSlots d) \<union> slot_Id ` set (m_vSlots d)"
    and "m_tBones d1 = m_tBones d" and "m_vPaths d1 = m_vPaths d" and "m_vTransforms d1 = m_vTransforms d"
proof -
  from assms obtain vSlots tSlots where
    l: "FinalizeSlots_loop (m_tBones d) [0..<length (m_vSlots d)] (m_vSlots d) (m_tSlots d) = Some (vSlots, tSlots)"
    and d1: "d1 = d\<lparr>m_vSlots := vSlots, m_tSlots := tSlots\<rparr>"
    unfolding FinalizeSlots_def by (auto split: option.splits)
  have "(\<lambda>i. slot_Id (m_vSlots d ! i)) ` set [0..<length (m_vSlots d)] = slot_Id ` set (m_vSlots d)"
    by (rule set_map_nth [symmetric])
  then show "dom (m_tSlots d1) = dom (m_tSlots d) \<union> slot_Id ` set (m_vSlots d)"
    using FinalizeSlots_loop_dom [OF l] by (simp add: d1)
  show "m_tBones d1 = m_tBones d" "m_vPaths d1 = m_vPaths d" "m_vTransforms d1 = m_vTransforms d"
    by (simp_all add: d1)
qed

lemma FinalizePaths_loop_targets:
  "FinalizePaths_loop tB tS xs vPaths tPaths = Some res \<Longrightarrow> i \<in> set xs
    \<Longrightarrow> map path_TargetId vPaths ! i \<in> dom tS \<or> length vPaths \<le> i"
proof (induction xs arbitrary: vPaths tPaths)
  case Nil
  then show ?case by simp
next
  case (Cons j xs)
  from Cons.prems(1) obtain iTarget where tg: "tS (path_TargetId (vPaths ! j)) = Some iTarget"
    by (cases "tS (path_TargetId (vPaths ! j))") (simp_all add: Let_def)
  from Cons.prems(1) tg obtain viBones where
    rest: "FinalizePaths_loop tB tS xs (vPaths[j := (vPaths ! j)\<lparr>path_iTarget := iTarget, path_viBones := viBones\<rparr>])
             (table_insert tPaths (path_Id (vPaths ! j)) (to_Int16 (int j))) = Some res"
    by (cases "get_values tB (path_vBoneIds (vPaths ! j))") (simp_all add: Let_def split: if_splits)
  have m: "map path_TargetId (vPaths[j := (vPaths ! j)\<lparr>path_iTarget := iTarget, path_viBones := viBones\<rparr>])
      = map path_TargetId vPaths"
    by (simp add: map_update map_update_same)
  show ?case
  proof (cases "i = j")
    case True
    show ?thesis
    proof (cases "i < length vPaths")
      case True
      with tg \<open>i = j\<close> show ?thesis by auto
    next
      case False
      then show ?thesis by simp
    qed
  next
    case False
    with Cons.prems(2) have "i \<in> set xs" by simp
    from Cons.IH [OF rest this] show ?thesis unfolding m by simp
  qed
qed

lemma FinalizePaths_missing_target:
  assumes "p \<in> set (m_vPaths d)" "path_TargetId p \<notin> dom (m_tSlots d)"
  shows "FinalizePaths d = None"
proof (rule ccontr)
  assume "FinalizePaths d \<noteq> None"
  then obtain res where r: "FinalizePaths_loop (m_tBones d) (m_tSlots d) [0..<length (m_vPaths d)]
      (m_vPaths d) (m_tPaths d) = Some res"
    unfolding FinalizePaths_def by (auto split: option.splits)
  from assms(1) obtain i where i: "i < length (m_vPaths d)" "m_vPaths d ! i = p"
    by (auto simp: in_set_conv_nth)
  from FinalizePaths_loop_targets [OF r, of i] i assms(2) show False by simp
qed

lemma FinalizePaths_result:
  assumes "FinalizePaths d = Some d1"
  shows "m_tBones d1 = m_tBones d" and "m_vTransforms d1 = m_vTransforms d"
  using assms unfolding FinalizePaths_def by (auto split: option.splits)

lemma FinalizeTransforms_loop_targets:
  "FinalizeTransforms_loop tB xs vT tT = Some res \<Longrightarrow> i \<in> set xs
    \<Longrightarrow> map tc_TargetId vT ! i \<in> dom tB \<or> length vT \<le> i"
proof (induction xs arbitrary: vT tT)
  case Nil
  then show ?case by simp
next
  case (Cons j xs)
  from Cons.prems(1) obtain iTarget where tg: "tB (tc_TargetId (vT ! j)) = Some iTarget"
    by (cases "tB (tc_TargetId (vT ! j))") (simp_all add: Let_def)
  from Cons.prems(1) tg obtain viBones where
    rest: "FinalizeTransforms_loop tB xs (vT[j := (vT ! j)\<lparr>tc_iTarget := iTarget, tc_viBones := viBones\<rparr>])
             (table_insert tT (tc_Id (vT ! j)) (to_Int16 (int j))) = Some res"
    by (cases "get_values tB (tc_vBoneIds (vT ! j))") (simp_all add: Let_def split: if_splits)
  have m: "map tc_TargetId (vT[j := (vT ! j)\<lparr>tc_iTarget := iTarget, tc_viBones := viBones\<rparr>])
      = map tc_TargetId vT"
    by (simp add: map_update map_update_same)
  show ?case
  proof (cases "i = j")
    case True
    show ?thesis
    proof (cases "i < length vT")
      case True
      with tg \<open>i = j\<close> show ?thesis by auto
    next
      case False
      then show ?thesis by simp
    qed
  next
    case False
    with Cons.prems(2) have "i \<in> set xs" by simp
    from Cons.IH [OF rest this] show ?thesis unfolding m by simp
  qed
qed

lemma FinalizeTransforms_missing_target:
  assumes "t \<in> set (m_vTransforms d)" "tc_TargetId t \<notin> dom (m_tBones d)"
  shows "FinalizeTransforms d = None"
proof (rule ccontr)
  assume "FinalizeTransforms d \<noteq> None"
  then obtain res where r: "FinalizeTransforms_loop (m_tBones d) [0..<length (m_vTransforms d)]
      (m_vTransforms d) (m_tTransforms d) = Some res"
    unfolding FinalizeTransforms_def by (auto split: option.splits)
  from assms(1) obtain i where i: "i < length (m_vTransforms d)" "m_vTransforms d ! i = t"
    by (auto simp: in_set_conv_nth)
  from FinalizeTransforms_loop_targets [OF r, of i] i assms(2) show False by simp
qed

lemma Finalize_missing_target:
  assumes "(\<exists>ik \<in> set (m_vIk d). ik_TargetId ik \<notin> bone_Id ` set (m_vBones d))
         \<or> (\<exists>p \<in> set (m_vPaths d). path_TargetId p \<notin> dom (m_tSlots d) \<union> slot_Id ` set (m_vSlots d))
         \<or> (\<exists>t \<in> set (m_vTransforms d). tc_TargetId t \<notin> bone_Id ` set (m_vBones d))"
  shows "Finalize bSkins d = Inr None"
proof (cases "FinalizeBones d")
  case None
  then show ?thesis by (simp add: Finalize_def)
next
  case (Some d1)
  note b = FinalizeBones_result [OF Some]
  show ?thesis
  proof (cases "FinalizeIk d1")
    case None
    with Some show ?thesis by (simp add: Finalize_def)
  next
    case ik: (Some d2)
    note i = FinalizeIk_result [OF ik]
    have noik: "\<not> (\<exists>ik \<in> set (m_vIk d). ik_TargetId ik \<notin> bone_Id ` set (m_vBones d))"
      using FinalizeIk_missing_target [of _ d1] ik b(1,2) by auto
    show ?thesis
    proof (cases bSkins)
      case False
      with Some ik show ?thesis by (simp add: Finalize_def)
    next
      case True
      show ?thesis
      proof (cases "FinalizeSlots d2")
        case None
        with Some ik show ?thesis by (simp add: Finalize_def)
      next
        case sl: (Some d3)
        note s = FinalizeSlots_result [OF sl]
        show ?thesis
        proof (cases "FinalizePaths d3")
          case None
          with Some ik sl show ?thesis by (simp add: Finalize_def)
        next
          case pa: (Some d4)
          note p = FinalizePaths_result [OF pa]
          have nopath: "\<not> (\<exists>p \<in> set (m_vPaths d). path_TargetId p \<notin> dom (m_tSlots d) \<union> slot_Id ` set (m_vSlots d))"
            using FinalizePaths_missing_target [of _ d3] pa s(1,3) i(2,3,5) b(3,4,6) by auto
          have "\<exists>t \<in> set (m_vTransforms d4). tc_TargetId t \<notin> dom (m_tBones d4)"
            using assms noik nopath p s(2,4) i(1,4) b(1,5) by auto
          then have "FinalizeTransforms d4 = None"
            using FinalizeTransforms_missing_target [of _ d4] by blast
          with Some ik sl pa True show ?thesis by (simp add: Finalize_def)
        qed
      qed
    qed
  qed
qed

lemma bone_evaluators_missing:
  "m_tBones d (fst kv) = None \<Longrightarrow> bone_evaluators d kv s = s"
  by (simp add: bone_evaluators_def GetBoneIndex_def GetIndex_def Let_def)

lemma fold_bone_evaluators_filter:
  "fold (bone_evaluators d) (filter (\<lambda>kv. m_tBones d (fst kv) \<noteq> None) t) s = fold (bone_evaluators d) t s"
  by (induction t arbitrary: s) (simp_all add: bone_evaluators_missing)

text \<open>
  C9. When a clip instance is constructed, a bone time line entry of the clip whose bone
  identifier is not in the definition's bone table creates no evaluator: the clip
  instance and the instance are the same as for the clip without these entries. A
  definition in which an IK constraint or a transform constraint names a target that is
  not the identifier of a bone, or a path constraint names a target that is not the
  identifier of a slot, fails finalization.
\<close>

theorem missing_bones_skipped_missing_targets_fail:
  "InternalConstructEvaluators
      (pClip\<lparr>clip_tBones := filter (\<lambda>kv. m_tBones (i_pData r) (fst kv) \<noteq> None) (clip_tBones pClip)\<rparr>) th r
     = InternalConstructEvaluators pClip th r
   \<and> ((\<exists>ik \<in> set (m_vIk d). ik_TargetId ik \<notin> bone_Id ` set (m_vBones d))
         \<or> (\<exists>p \<in> set (m_vPaths d). path_TargetId p \<notin> dom (m_tSlots d) \<union> slot_Id ` set (m_vSlots d))
         \<or> (\<exists>t \<in> set (m_vTransforms d). tc_TargetId t \<notin> bone_Id ` set (m_vBones d))
       \<longrightarrow> Finalize bSkins d = Inr None)"
proof -
  have "InternalConstructEvaluators
      (pClip\<lparr>clip_tBones := filter (\<lambda>kv. m_tBones (i_pData r) (fst kv) \<noteq> None) (clip_tBones pClip)\<rparr>) th r
     = InternalConstructEvaluators pClip th r"
    unfolding InternalConstructEvaluators_def Let_def
    by (simp add: fold_bone_evaluators_filter split_beta del: not_None_eq)
  then show ?thesis using Finalize_missing_target [of d bSkins] by blast
qed

theorem missing_bones_witness:
  "m_vEvaluators (fst (InternalConstructEvaluators ex_ghost_clip (1 / 2) (ex_instance (ex_slots 2))))
     = [SlotAttachmentEvaluator [\<lparr>ka_fTime = 1 / 2, ka_Id = ''A''\<rparr>] 0]
   \<and> Finalize True ex_missing_target = Inr None
   \<and> (case Finalize True (ex_data (ex_slots 2)) of Inr (Some d) \<Rightarrow> m_vPoseTasks d | _ \<Rightarrow> []) = [IkTask 0]"
proof -
  have f: "filter (\<lambda>kv. m_tBones (i_pData (ex_instance (ex_slots 2))) (fst kv) \<noteq> None) (clip_tBones ex_ghost_clip) = []"
    by (simp add: ex_ghost_clip_def ex_instance_def ex_data_def)
  have c: "ex_ghost_clip\<lparr>clip_tBones := []\<rparr> = ex_attachment_clip"
    by (simp add: ex_ghost_clip_def ex_attachment_clip_def)
  have e: "m_vEvaluators (fst (InternalConstructEvaluators ex_attachment_clip (1 / 2) (ex_instance (ex_slots 2))))
     = [SlotAttachmentEvaluator [\<lparr>ka_fTime = 1 / 2, ka_Id = ''A''\<rparr>] 0]"
    by code_simp
  have h: "\<exists>ik \<in> set (m_vIk ex_missing_target). ik_TargetId ik \<notin> bone_Id ` set (m_vBones ex_missing_target)"
    by (simp add: ex_missing_target_def ex_data_def ex_ik_def ex_bone_def)
  have g: "(case Finalize True (ex_data (ex_slots 2)) of Inr (Some d) \<Rightarrow> m_vPoseTasks d | _ \<Rightarrow> []) = [IkTask 0]"
    by code_simp
  note t = missing_bones_skipped_missing_targets_fail [where pClip = ex_ghost_clip
      and r = "ex_instance (ex_slots 2)" and th = "1 / 2" and d = ex_missing_target and bSkins = True]
  from t [THEN conjunct1] have "m_vEvaluators (fst (InternalConstructEvaluators ex_ghost_clip (1 / 2) (ex_instance (ex_slots 2))))
     = [SlotAttachmentEvaluator [\<lparr>ka_fTime = 1 / 2, ka_Id = ''A''\<rparr>] 0]"
    unfolding f c using e by simp
  moreover from t [THEN conjunct2] h have "Finalize True ex_missing_target = Inr None" by blast
  ultimately show ?thesis using g by (intro conjI)
qed

section \<open>IK booleans: interpolated as floats, thresholded at commit\<close>






end
